theory Spec2Isabelle
  imports Main
begin

section \<open>Values, errors and results\<close>

text \<open>
  The model follows \<^verbatim>\<open>packages/jest-runtime/src/index.js\<close> (class \<^verbatim>\<open>Runtime\<close>).
  JavaScript values are kept small: primitives, references to heap objects, and opaque
  values handed out by the host (core modules, the sandbox process object) or by the
  module mocker.
\<close>

datatype val =
    Undefined
  | Num int
  | Str string
  | Ref nat
  | HostModule string
  | SandboxProcess
  | Generated string

datatype error =
    ModuleNotFound string
  | TypeError string
  | JsError string
  | TransformError string
  | Thrown string

text \<open>
  A call either returns, throws, or does not finish within the given fuel
  (\<open>OutOfFuel\<close> is not a JavaScript error, it only ends the recursion of the model).
\<close>

datatype 'a result = Ok 'a | Err error | OutOfFuel

section \<open>Collaborators: resolver, transform, sandbox environment\<close>

text \<open>
  The resolver (package jest-resolve), the script transformer, the sandbox environment and
  the module mocker are collaborators of the runtime; their operations are parameters of the
  model. A nullable path (\<^verbatim>\<open>?Path\<close>) is a \<open>string option\<close>; JavaScript treats both
  \<^verbatim>\<open>null\<close> and the empty string as false.
\<close>

fun truthy :: "string option \<Rightarrow> bool" where
  "truthy None = False"
| "truthy (Some s) = (s \<noteq> [])"

record resolver =
  getModulePath :: "string \<Rightarrow> string \<Rightarrow> string"
  getModuleID :: "(string \<rightharpoonup> bool) \<Rightarrow> string \<Rightarrow> string option \<Rightarrow> string"
  isCoreModule :: "string \<Rightarrow> bool"
  resolveModule :: "string \<Rightarrow> string \<Rightarrow> error + string"
  getMockModule :: "string \<Rightarrow> string \<Rightarrow> string option"
  getModule :: "string \<Rightarrow> string option"
  getModulePaths :: "string \<Rightarrow> string list"
  resolveStubModuleName :: "string \<Rightarrow> string \<Rightarrow> string option"

section \<open>Module bodies\<close>

text \<open>
  The code of a module (the wrapper function the transform produces) is a list of
  statements over the objects the wrapper receives: \<^verbatim>\<open>module\<close>, \<^verbatim>\<open>exports\<close>,
  \<^verbatim>\<open>require\<close> and \<^verbatim>\<open>jest\<close>. There is no \<^verbatim>\<open>try\<close>/\<^verbatim>\<open>catch\<close> and no
  conditional in this language: an error thrown in a body ends every enclosing execution.
\<close>

datatype expr =
    Lit val
  | NewObject
  | Require string
  | RequireActual string
  | RequireMock string
  | GenMockFromModule string
  | Prop expr string
  | ModuleExports

datatype stmt =
    ExportsSet string expr
  | ModuleExportsAssign expr
  | Eval expr
  | ThrowError string
  | JestMock string
  | JestMockFactory string expr bool
  | JestUnmock string
  | JestDeepUnmock string
  | JestEnableAutomock
  | JestDisableAutomock
  | JestResetModules
  | JestIsolateModules "stmt list"

text \<open>The bindings a body runs with: the module's filename, the module object, the
  \<^verbatim>\<open>exports\<close> argument, and whether the module was loaded as an internal module.\<close>

record ctx =
  ctx_from :: string
  ctx_module :: nat
  ctx_exports :: val
  ctx_internal :: bool

record transformed =
  script :: "stmt list"
  sourceMapPath :: "string option"
  mapCoverage :: bool

text \<open>
  The sandbox: \<open>global\<close> is \<open>None\<close> once the environment has disposed of its global
  object, otherwise it tells which names are defined (truthy) on it; \<open>runScript\<close>
  returns \<open>None\<close> for JavaScript's \<^verbatim>\<open>null\<close>, otherwise the wrapper of the script.
\<close>

record environment =
  global :: "(string \<Rightarrow> bool) option"
  runScript :: "stmt list \<Rightarrow> stmt list option"

record world =
  resolver :: resolver
  env :: environment
  transform :: "string \<Rightarrow> error + transformed"
  extraGlobals :: "string list"
  unmockList :: "(string \<Rightarrow> bool) option"
  existsSync :: "string \<Rightarrow> bool"
  readJSON :: "string \<Rightarrow> error + val"
  nativeRequire :: "string \<Rightarrow> error + val"
  getMetadata :: "(nat \<rightharpoonup> (string \<rightharpoonup> val)) \<Rightarrow> val \<Rightarrow> string option"
  generateFromMetadata :: "string option \<Rightarrow> val"
  findSiblingsWithFileExtension :: "string \<Rightarrow> string \<Rightarrow> string"
  cwd :: string

section \<open>The runtime instance\<close>

text \<open>
  Module objects, registries and plain objects are shared and mutated in place, and
  \<^verbatim>\<open>resetModules\<close>, \<^verbatim>\<open>isolateModules\<close> and \<^verbatim>\<open>_generateMock\<close> replace the registry
  a field points to while callers still hold the old one. So they live in a store, and the
  fields of the runtime hold addresses. \<^verbatim>\<open>BooleanObject\<close> tables are maps to booleans;
  \<^verbatim>\<open>key in table\<close> is \<open>table key \<noteq> None\<close>.

  Of a module object the fields \<^verbatim>\<open>filename\<close>, \<^verbatim>\<open>exports\<close> and \<^verbatim>\<open>loaded\<close> are
  modelled (\<^verbatim>\<open>id\<close> equals \<^verbatim>\<open>filename\<close>; \<^verbatim>\<open>children\<close>, \<^verbatim>\<open>parent\<close> and
  \<^verbatim>\<open>paths\<close> are not read by the language of bodies above).
  \<open>executed\<close> is a ghost field: the filenames whose wrapper has been called, in order.
\<close>

record module =
  filename :: string
  exports :: val
  loaded :: bool

record runtime =
  next_addr :: nat
  modules :: "nat \<rightharpoonup> module"
  objects :: "nat \<rightharpoonup> (string \<rightharpoonup> val)"
  module_registries :: "nat \<rightharpoonup> (string \<rightharpoonup> nat)"
  mock_registries :: "nat \<rightharpoonup> (string \<rightharpoonup> val)"
  currentlyExecutingModulePath :: string
  explicitShouldMock :: "string \<rightharpoonup> bool"
  internalModuleRegistry :: nat
  isCurrentlyExecutingManualMock :: "string option"
  mockFactories :: "string \<rightharpoonup> (ctx \<times> expr)"
  mockMetaDataCache :: "string \<rightharpoonup> string option"
  mockRegistry :: nat
  isolatedMockRegistry :: "nat option"
  isolatedModuleRegistry :: "nat option"
  moduleRegistry :: nat
  needsCoverageMapped :: "string set"
  shouldAutoMock :: bool
  shouldMockModuleCache :: "string \<rightharpoonup> bool"
  shouldUnmockTransitiveDependenciesCache :: "string \<rightharpoonup> bool"
  sourceMapRegistry :: "string \<rightharpoonup> string"
  transitiveShouldMock :: "string \<rightharpoonup> bool"
  virtualMocks :: "string \<rightharpoonup> bool"
  exitCode :: nat
  console_error :: "string list"
  executed :: "string list"

section \<open>Helpers of the source file\<close>

definition NODE_MODULES :: string where
  "NODE_MODULES = ''/node_modules/''"

definition path_delimiter :: string where
  "path_delimiter = '':''"

text \<open>\<^verbatim>\<open>String.prototype.includes\<close>.\<close>

fun str_includes :: "string \<Rightarrow> string \<Rightarrow> bool" where
  "str_includes [] t = (t = [])"
| "str_includes (c # cs) t = (take (length t) (c # cs) = t \<or> str_includes cs t)"

text \<open>\<^verbatim>\<open>this._unmockList && this._unmockList.test(p)\<close>: the unmock list is an optional
  regular expression, of which only \<^verbatim>\<open>test\<close> is used.\<close>

fun unmockList_test :: "(string \<Rightarrow> bool) option \<Rightarrow> string \<Rightarrow> bool" where
  "unmockList_test None p = False"
| "unmockList_test (Some re) p = re p"

text \<open>\<^verbatim>\<open>_resolveModule(from, to)\<close>: \<^verbatim>\<open>to ? this._resolver.resolveModule(from, to) : from\<close>.\<close>

definition runtime_resolveModule :: "world \<Rightarrow> string \<Rightarrow> string option \<Rightarrow> error + string" where
  "runtime_resolveModule w from to =
     (case to of
        None \<Rightarrow> Inr from
      | Some t \<Rightarrow> if t = [] then Inr from else resolveModule (resolver w) from t)"

section \<open>The mock policy: \<^verbatim>\<open>_shouldMock\<close>\<close>

definition shouldMock :: "world \<Rightarrow> string \<Rightarrow> string \<Rightarrow> runtime \<Rightarrow> bool result \<times> runtime" where
  "shouldMock w from moduleName s =
    (let mockPath = getModulePath (resolver w) from moduleName in
     if virtualMocks s mockPath \<noteq> None then (Ok True, s)
     else
       let moduleID = getModuleID (resolver w) (virtualMocks s) from (Some moduleName);
           key = from @ path_delimiter @ moduleID
       in
       case explicitShouldMock s moduleID of
         Some b \<Rightarrow> (Ok b, s)
       | None \<Rightarrow>
           if \<not> shouldAutoMock s \<or> isCoreModule (resolver w) moduleName
              \<or> shouldUnmockTransitiveDependenciesCache s key = Some True
           then (Ok False, s)
           else
             case shouldMockModuleCache s moduleID of
               Some b \<Rightarrow> (Ok b, s)
             | None \<Rightarrow>
                 (case runtime_resolveModule w from (Some moduleName) of
                    Inl e \<Rightarrow>
                      if truthy (getMockModule (resolver w) from moduleName)
                      then (Ok True,
                            s\<lparr>shouldMockModuleCache := (shouldMockModuleCache s)(moduleID \<mapsto> True)\<rparr>)
                      else (Err e, s)
                  | Inr modulePath \<Rightarrow>
                      if unmockList_test (unmockList w) modulePath
                      then (Ok False,
                            s\<lparr>shouldMockModuleCache := (shouldMockModuleCache s)(moduleID \<mapsto> False)\<rparr>)
                      else
                        let currentModuleID = getModuleID (resolver w) (virtualMocks s) from None in
                        if transitiveShouldMock s currentModuleID = Some False
                           \<or> (str_includes from NODE_MODULES
                               \<and> str_includes modulePath NODE_MODULES
                               \<and> (unmockList_test (unmockList w) from
                                    \<or> explicitShouldMock s currentModuleID = Some False))
                        then (Ok False,
                              s\<lparr>transitiveShouldMock := (transitiveShouldMock s)(moduleID \<mapsto> False),
                                shouldUnmockTransitiveDependenciesCache :=
                                  (shouldUnmockTransitiveDependenciesCache s)(key \<mapsto> True)\<rparr>)
                        else (Ok True,
                              s\<lparr>shouldMockModuleCache := (shouldMockModuleCache s)(moduleID \<mapsto> True)\<rparr>)))"


section \<open>Paths (POSIX \<^verbatim>\<open>path\<close> module)\<close>

definition basename :: "string \<Rightarrow> string" where
  "basename p = rev (takeWhile (\<lambda>c. c \<noteq> CHR ''/'') (dropWhile (\<lambda>c. c = CHR ''/'') (rev p)))"

fun dirname :: "string \<Rightarrow> string" where
  "dirname [] = ''.''"
| "dirname (c # cs) =
     (case dropWhile (\<lambda>x. x \<noteq> CHR ''/'') (dropWhile (\<lambda>x. x = CHR ''/'') (rev cs)) of
        [] \<Rightarrow> if c = CHR ''/'' then ''/'' else ''.''
      | _ # rest \<Rightarrow> if c = CHR ''/'' \<and> rest = [] then ''//'' else c # rev rest)"

text \<open>\<^verbatim>\<open>path.extname\<close>: the part of the last component from its last dot on, empty when
  there is no dot, when the only dot is the component's first character, and for \<^verbatim>\<open>..\<close>.\<close>

definition extname :: "string \<Rightarrow> string" where
  "extname p =
     (let b = basename p;
          ext = rev (takeWhile (\<lambda>c. c \<noteq> CHR ''.'') (rev b))
      in if CHR ''.'' \<notin> set b \<or> length ext + 1 = length b \<or> b = ''..'' then []
         else CHR ''.'' # ext)"

fun split_path :: "string \<Rightarrow> string \<Rightarrow> string list" where
  "split_path acc [] = [rev acc]"
| "split_path acc (c # cs) =
     (if c = CHR ''/'' then rev acc # split_path [] cs else split_path (c # acc) cs)"

text \<open>\<^verbatim>\<open>normalizeString\<close>: drop empty and \<^verbatim>\<open>.\<close> segments, let \<^verbatim>\<open>..\<close> remove the
  segment before it; \<open>acc\<close> is the result so far, last segment first.\<close>

fun normalize_segs :: "bool \<Rightarrow> string list \<Rightarrow> string list \<Rightarrow> string list" where
  "normalize_segs allowAboveRoot acc [] = rev acc"
| "normalize_segs allowAboveRoot acc (x # xs) =
     (if x = [] \<or> x = ''.'' then normalize_segs allowAboveRoot acc xs
      else if x = ''..'' then
        (case acc of
           [] \<Rightarrow> normalize_segs allowAboveRoot (if allowAboveRoot then [''..''] else []) xs
         | y # ys \<Rightarrow>
             if y = ''..'' then normalize_segs allowAboveRoot (''..'' # acc) xs
             else normalize_segs allowAboveRoot ys xs)
      else normalize_segs allowAboveRoot (x # acc) xs)"

fun join_segs :: "string list \<Rightarrow> string" where
  "join_segs [] = []"
| "join_segs [x] = x"
| "join_segs (x # y # ys) = x @ ''/'' @ join_segs (y # ys)"

text \<open>\<^verbatim>\<open>path.resolve(from, '..')\<close>; a relative \<open>from\<close> is resolved against the
  working directory, which is absolute.\<close>

definition path_resolve_parent :: "string \<Rightarrow> string \<Rightarrow> string" where
  "path_resolve_parent wd from =
     (let full = (if from = [] then wd
                  else if hd from = CHR ''/'' then from
                  else wd @ ''/'' @ from) @ ''/..''
      in CHR ''/'' # join_segs (normalize_segs False [] (split_path [] full)))"

text \<open>\<^verbatim>\<open>path.join(a, b, c)\<close> for non-empty arguments.\<close>

definition path_join3 :: "string \<Rightarrow> string \<Rightarrow> string \<Rightarrow> string" where
  "path_join3 a b c =
     (let joined = a @ ''/'' @ b @ ''/'' @ c;
          isAbsolute = (hd joined = CHR ''/'');
          trailing = (last joined = CHR ''/'');
          p = join_segs (normalize_segs (\<not> isAbsolute) [] (split_path [] joined))
      in if p = [] then (if isAbsolute then ''/'' else if trailing then ''./'' else ''.'')
         else (if isAbsolute then ''/'' else []) @ p @ (if trailing then ''/'' else []))"

section \<open>Store operations\<close>

definition new_object :: "runtime \<Rightarrow> nat \<times> runtime" where
  "new_object s =
     (next_addr s, s\<lparr>next_addr := Suc (next_addr s),
                     objects := (objects s)(next_addr s \<mapsto> Map.empty)\<rparr>)"

definition new_module_registry :: "runtime \<Rightarrow> nat \<times> runtime" where
  "new_module_registry s =
     (next_addr s, s\<lparr>next_addr := Suc (next_addr s),
                     module_registries := (module_registries s)(next_addr s \<mapsto> Map.empty)\<rparr>)"

definition new_mock_registry :: "runtime \<Rightarrow> nat \<times> runtime" where
  "new_mock_registry s =
     (next_addr s, s\<lparr>next_addr := Suc (next_addr s),
                     mock_registries := (mock_registries s)(next_addr s \<mapsto> Map.empty)\<rparr>)"

text \<open>The pre-allocated module object
  \<^verbatim>\<open>{children: [], exports: {}, filename: modulePath, id: modulePath, loaded: false}\<close>.\<close>

definition new_module :: "string \<Rightarrow> runtime \<Rightarrow> nat \<times> runtime" where
  "new_module modulePath s =
     (let (ob, s1) = new_object s in
      (next_addr s1,
       s1\<lparr>next_addr := Suc (next_addr s1),
          modules := (modules s1)(next_addr s1 \<mapsto>
             \<lparr>filename = modulePath, exports = Ref ob, loaded = False\<rparr>)\<rparr>))"

text \<open>\<^verbatim>\<open>registry[key]\<close> on a registry held by address.\<close>

definition registry_get :: "runtime \<Rightarrow> nat \<Rightarrow> string \<Rightarrow> nat option" where
  "registry_get s r key = (case module_registries s r of None \<Rightarrow> None | Some reg \<Rightarrow> reg key)"

definition registry_set :: "nat \<Rightarrow> string \<Rightarrow> nat \<Rightarrow> runtime \<Rightarrow> runtime" where
  "registry_set r key a s =
     s\<lparr>module_registries := (module_registries s)(r \<mapsto>
         (case module_registries s r of None \<Rightarrow> Map.empty | Some reg \<Rightarrow> reg)(key \<mapsto> a))\<rparr>"

definition mock_get :: "runtime \<Rightarrow> nat \<Rightarrow> string \<Rightarrow> val option" where
  "mock_get s r key = (case mock_registries s r of None \<Rightarrow> None | Some reg \<Rightarrow> reg key)"

definition mock_set :: "nat \<Rightarrow> string \<Rightarrow> val \<Rightarrow> runtime \<Rightarrow> runtime" where
  "mock_set r key v s =
     s\<lparr>mock_registries := (mock_registries s)(r \<mapsto>
         (case mock_registries s r of None \<Rightarrow> Map.empty | Some reg \<Rightarrow> reg)(key \<mapsto> v))\<rparr>"

definition set_exports :: "nat \<Rightarrow> val \<Rightarrow> runtime \<Rightarrow> runtime" where
  "set_exports a v s =
     (case modules s a of
        None \<Rightarrow> s
      | Some m \<Rightarrow> s\<lparr>modules := (modules s)(a \<mapsto> m\<lparr>exports := v\<rparr>)\<rparr>)"

definition set_loaded :: "nat \<Rightarrow> runtime \<Rightarrow> runtime" where
  "set_loaded a s =
     (case modules s a of
        None \<Rightarrow> s
      | Some m \<Rightarrow> s\<lparr>modules := (modules s)(a \<mapsto> m\<lparr>loaded := True\<rparr>)\<rparr>)"

text \<open>\<^verbatim>\<open>registry[modulePath].exports\<close>; reading \<^verbatim>\<open>exports\<close> of a missing entry is a
  TypeError.\<close>

definition registry_exports :: "runtime \<Rightarrow> nat \<Rightarrow> string \<Rightarrow> val result" where
  "registry_exports s r key =
     (case registry_get s r key of
        None \<Rightarrow> Err (TypeError ''Cannot read property exports of undefined'')
      | Some a \<Rightarrow>
          (case modules s a of
             None \<Rightarrow> Err (TypeError ''Cannot read property exports of undefined'')
           | Some m \<Rightarrow> Ok (exports m)))"

text \<open>JavaScript truthiness of a value.\<close>

fun val_truthy :: "val \<Rightarrow> bool" where
  "val_truthy Undefined = False"
| "val_truthy (Num n) = (n \<noteq> 0)"
| "val_truthy (Str t) = (t \<noteq> [])"
| "val_truthy _ = True"

section \<open>Operations without recursion\<close>

text \<open>\<^verbatim>\<open>resetModules\<close>. Clearing the mock functions found on the sandbox global and the
  fake timers acts on the environment only and is not part of the runtime's state.\<close>

definition resetModules :: "runtime \<Rightarrow> runtime" where
  "resetModules s =
     (let s1 = s\<lparr>isolatedModuleRegistry := None, isolatedMockRegistry := None\<rparr>;
          (mr, s2) = new_mock_registry s1;
          s3 = s2\<lparr>mockRegistry := mr\<rparr>;
          (r, s4) = new_module_registry s3
      in s4\<lparr>moduleRegistry := r\<rparr>)"

text \<open>\<^verbatim>\<open>setMock(from, moduleName, mockFactory, options)\<close>; the factory is an expression
  closed over the bindings of the module that registers it.\<close>

definition setMock :: "world \<Rightarrow> string \<Rightarrow> string \<Rightarrow> ctx \<times> expr \<Rightarrow> bool \<Rightarrow> runtime \<Rightarrow> runtime" where
  "setMock w from moduleName mockFactory virtual s =
     (let s1 = (if virtual
                then s\<lparr>virtualMocks :=
                        (virtualMocks s)(getModulePath (resolver w) from moduleName \<mapsto> True)\<rparr>
                else s);
          moduleID = getModuleID (resolver w) (virtualMocks s1) from (Some moduleName)
      in s1\<lparr>explicitShouldMock := (explicitShouldMock s1)(moduleID \<mapsto> True),
            mockFactories := (mockFactories s1)(moduleID \<mapsto> mockFactory)\<rparr>)"

text \<open>\<^verbatim>\<open>_requireCoreModule\<close>.\<close>

definition requireCoreModule :: "world \<Rightarrow> string \<Rightarrow> val result" where
  "requireCoreModule w moduleName =
     (if moduleName = ''process''
      then (case global (env w) of
              None \<Rightarrow> Err (TypeError ''Cannot read property process of null'')
            | Some g \<Rightarrow> Ok SandboxProcess)
      else Ok (HostModule moduleName))"

text \<open>Lines 304 to 316 of \<^verbatim>\<open>requireModule\<close>: the manual mock that replaces the module,
  if any.\<close>

definition manualMockFor ::
  "world \<Rightarrow> string \<Rightarrow> string option \<Rightarrow> bool \<Rightarrow> bool \<Rightarrow> runtime \<Rightarrow> string option" where
  "manualMockFor w from moduleName isInternalModule isRequireActual s =
     (case moduleName of
        None \<Rightarrow> None
      | Some name \<Rightarrow>
          if name = [] then None
          else
            let moduleID = getModuleID (resolver w) (virtualMocks s) from moduleName;
                moduleResource = getModule (resolver w) name;
                manualMock = getMockModule (resolver w) from name
            in if \<not> isInternalModule \<and> \<not> isRequireActual \<and> \<not> truthy moduleResource
                  \<and> truthy manualMock
                  \<and> manualMock \<noteq> isCurrentlyExecutingManualMock s
                  \<and> explicitShouldMock s moduleID \<noteq> Some False
               then manualMock else None)"

text \<open>Lines 318 to 324: the module is a core module, or the path of the file to load.\<close>

definition requireModule_path ::
  "world \<Rightarrow> string \<Rightarrow> string option \<Rightarrow> bool \<Rightarrow> bool \<Rightarrow> runtime \<Rightarrow> error + string" where
  "requireModule_path w from moduleName isInternalModule isRequireActual s =
     (case manualMockFor w from moduleName isInternalModule isRequireActual s of
        Some p \<Rightarrow> Inr p
      | None \<Rightarrow> runtime_resolveModule w from moduleName)"

definition is_core_request :: "world \<Rightarrow> string option \<Rightarrow> bool" where
  "is_core_request w moduleName =
     (case moduleName of
        None \<Rightarrow> False
      | Some name \<Rightarrow> name \<noteq> [] \<and> isCoreModule (resolver w) name)"

text \<open>Lines 326 to 336: the registry the module is looked up in and written to.\<close>

definition select_registry :: "runtime \<Rightarrow> string \<Rightarrow> bool \<Rightarrow> nat" where
  "select_registry s modulePath isInternalModule =
     (if \<not> isInternalModule then
        (if registry_get s (moduleRegistry s) modulePath \<noteq> None
            \<or> isolatedModuleRegistry s = None
         then moduleRegistry s
         else (case isolatedModuleRegistry s of Some i \<Rightarrow> i | None \<Rightarrow> moduleRegistry s))
      else internalModuleRegistry s)"

text \<open>The first configured extra global that is missing on the sandbox global.\<close>

definition missing_global :: "(string \<Rightarrow> bool) \<Rightarrow> string list \<Rightarrow> string option" where
  "missing_global g names = find (\<lambda>x. \<not> g x) names"

definition torn_down_message :: string where
  "torn_down_message =
     ''You are trying to `import` a file after the Jest environment has been torn down.''"

text \<open>\<^verbatim>\<open>_logFormattedReferenceError(msg); process.exitCode = 1\<close>; the formatting of the
  stack is left out, the message is what is recorded.\<close>

definition logFormattedReferenceError :: "string \<Rightarrow> runtime \<Rightarrow> runtime" where
  "logFormattedReferenceError msg s = s\<lparr>console_error := console_error s @ [msg]\<rparr>"

text \<open>Lines 687 to 692 of \<^verbatim>\<open>_execModule\<close>.\<close>

definition register_source_map :: "string \<Rightarrow> transformed \<Rightarrow> runtime \<Rightarrow> runtime" where
  "register_source_map file t s =
     (if truthy (sourceMapPath t)
      then (let s1 = s\<lparr>sourceMapRegistry :=
                         (sourceMapRegistry s)(file \<mapsto> (case sourceMapPath t of Some p \<Rightarrow> p | None \<Rightarrow> []))\<rparr>
            in if mapCoverage t
               then s1\<lparr>needsCoverageMapped := insert file (needsCoverageMapped s1)\<rparr>
               else s1)
      else s)"

text \<open>Reading a property of a value, as \<^verbatim>\<open>require('./a').b\<close> does.\<close>

definition get_prop :: "runtime \<Rightarrow> val \<Rightarrow> string \<Rightarrow> val result" where
  "get_prop s v k =
     (case v of
        Undefined \<Rightarrow> Err (TypeError ''Cannot read property of undefined'')
      | Ref a \<Rightarrow>
          (case objects s a of
             None \<Rightarrow> Ok Undefined
           | Some ob \<Rightarrow> (case ob k of None \<Rightarrow> Ok Undefined | Some x \<Rightarrow> Ok x))
      | _ \<Rightarrow> Ok Undefined)"

text \<open>Writing a property, as \<^verbatim>\<open>exports.k = v\<close> does.\<close>

definition set_prop :: "val \<Rightarrow> string \<Rightarrow> val \<Rightarrow> runtime \<Rightarrow> unit result \<times> runtime" where
  "set_prop target k v s =
     (case target of
        Undefined \<Rightarrow> (Err (TypeError ''Cannot set property of undefined''), s)
      | Ref a \<Rightarrow>
          (Ok (), s\<lparr>objects := (objects s)(a \<mapsto>
                      (case objects s a of None \<Rightarrow> Map.empty | Some ob \<Rightarrow> ob)(k \<mapsto> v))\<rparr>)
      | _ \<Rightarrow> (Ok (), s))"

text \<open>The \<^verbatim>\<open>catch\<close> of \<^verbatim>\<open>requireModuleOrMock\<close>: a module-not-found error gets the
  suggestion of sibling files appended, every error is thrown again.\<close>

fun enrich :: "world \<Rightarrow> string \<Rightarrow> string \<Rightarrow> error \<Rightarrow> error" where
  "enrich w from moduleName (ModuleNotFound msg) =
     ModuleNotFound (msg @ findSiblingsWithFileExtension w from moduleName)"
| "enrich w from moduleName e = e"

fun rethrow :: "world \<Rightarrow> string \<Rightarrow> string \<Rightarrow> val result \<times> runtime \<Rightarrow> val result \<times> runtime" where
  "rethrow w from moduleName (Err e, s) = (Err (enrich w from moduleName e), s)"
| "rethrow w from moduleName other = other"

section \<open>Loading and executing modules\<close>

text \<open>
  \<^verbatim>\<open>requireModule\<close>, \<^verbatim>\<open>requireMock\<close>, \<^verbatim>\<open>requireModuleOrMock\<close>,
  \<^verbatim>\<open>isolateModules\<close>, \<^verbatim>\<open>_generateMock\<close> and \<^verbatim>\<open>_execModule\<close> call each other
  through the bodies of the modules they run, and a body can require itself again after a
  reset. The recursion is therefore bounded by fuel: each method is written over
  \<open>self\<close>, the runtime with one unit of fuel less, and \<open>run\<close> below ties the knot.
  A \<open>call\<close> names a method of the runtime with its arguments.

  \<^verbatim>\<open>_execModule\<close> gets the module object and the internal flag; the registry and the
  \<^verbatim>\<open>from\<close> path it is also passed are only read by the \<^verbatim>\<open>parent\<close> accessor.
\<close>

datatype call =
    Call_RequireModule string "string option" bool bool
  | Call_RequireMock string string
  | Call_RequireModuleOrMock string string
  | Call_IsolateModules ctx "stmt list"
  | Call_GenerateMock string string
  | Call_ExecModule nat bool

type_synonym outcome = "val result \<times> runtime"
type_synonym self = "call \<Rightarrow> runtime \<Rightarrow> outcome"

subsection \<open>Bodies: expressions and statements\<close>

fun eval_expr :: "self \<Rightarrow> ctx \<Rightarrow> expr \<Rightarrow> runtime \<Rightarrow> outcome" where
  "eval_expr self c (Lit v) s = (Ok v, s)"
| "eval_expr self c NewObject s = (let (ob, s1) = new_object s in (Ok (Ref ob), s1))"
| "eval_expr self c (Require moduleName) s =
     (if ctx_internal c
      then self (Call_RequireModule (ctx_from c) (Some moduleName) True False) s
      else self (Call_RequireModuleOrMock (ctx_from c) moduleName) s)"
| "eval_expr self c (RequireActual moduleName) s =
     self (Call_RequireModule (ctx_from c) (Some moduleName) False True) s"
| "eval_expr self c (RequireMock moduleName) s = self (Call_RequireMock (ctx_from c) moduleName) s"
| "eval_expr self c (GenMockFromModule moduleName) s =
     self (Call_GenerateMock (ctx_from c) moduleName) s"
| "eval_expr self c (Prop e k) s =
     (case eval_expr self c e s of
        (Ok v, s1) \<Rightarrow> (get_prop s1 v k, s1)
      | other \<Rightarrow> other)"
| "eval_expr self c ModuleExports s =
     (case modules s (ctx_module c) of
        None \<Rightarrow> (Err (TypeError ''module object missing''), s)
      | Some m \<Rightarrow> (Ok (exports m), s))"

text \<open>The statements of a body use the \<^verbatim>\<open>jest\<close> object of \<^verbatim>\<open>_createJestObjectFor\<close>:
  \<^verbatim>\<open>mock\<close>, \<^verbatim>\<open>unmock\<close>, \<^verbatim>\<open>deepUnmock\<close>, \<^verbatim>\<open>enableAutomock\<close>,
  \<^verbatim>\<open>disableAutomock\<close>, \<^verbatim>\<open>resetModules\<close> and \<^verbatim>\<open>isolateModules\<close>.\<close>

fun exec_stmt :: "self \<Rightarrow> world \<Rightarrow> ctx \<Rightarrow> stmt \<Rightarrow> runtime \<Rightarrow> outcome" where
  "exec_stmt self w c (ExportsSet k e) s =
     (case eval_expr self c e s of
        (Ok v, s1) \<Rightarrow>
          (case set_prop (ctx_exports c) k v s1 of
             (Err er, s2) \<Rightarrow> (Err er, s2)
           | (u, s2) \<Rightarrow> (Ok Undefined, s2))
      | other \<Rightarrow> other)"
| "exec_stmt self w c (ModuleExportsAssign e) s =
     (case eval_expr self c e s of
        (Ok v, s1) \<Rightarrow> (Ok Undefined, set_exports (ctx_module c) v s1)
      | other \<Rightarrow> other)"
| "exec_stmt self w c (Eval e) s = eval_expr self c e s"
| "exec_stmt self w c (ThrowError msg) s = (Err (Thrown msg), s)"
| "exec_stmt self w c (JestMock moduleName) s =
     (Ok Undefined,
      s\<lparr>explicitShouldMock := (explicitShouldMock s)
           (getModuleID (resolver w) (virtualMocks s) (ctx_from c) (Some moduleName) \<mapsto> True)\<rparr>)"
| "exec_stmt self w c (JestMockFactory moduleName e virtual) s =
     (Ok Undefined, setMock w (ctx_from c) moduleName (c, e) virtual s)"
| "exec_stmt self w c (JestUnmock moduleName) s =
     (Ok Undefined,
      s\<lparr>explicitShouldMock := (explicitShouldMock s)
           (getModuleID (resolver w) (virtualMocks s) (ctx_from c) (Some moduleName) \<mapsto> False)\<rparr>)"
| "exec_stmt self w c (JestDeepUnmock moduleName) s =
     (let moduleID = getModuleID (resolver w) (virtualMocks s) (ctx_from c) (Some moduleName)
      in (Ok Undefined,
          s\<lparr>explicitShouldMock := (explicitShouldMock s)(moduleID \<mapsto> False),
            transitiveShouldMock := (transitiveShouldMock s)(moduleID \<mapsto> False)\<rparr>))"
| "exec_stmt self w c JestEnableAutomock s = (Ok Undefined, s\<lparr>shouldAutoMock := True\<rparr>)"
| "exec_stmt self w c JestDisableAutomock s = (Ok Undefined, s\<lparr>shouldAutoMock := False\<rparr>)"
| "exec_stmt self w c JestResetModules s = (Ok Undefined, resetModules s)"
| "exec_stmt self w c (JestIsolateModules fn) s = self (Call_IsolateModules c fn) s"

fun exec_stmts :: "self \<Rightarrow> world \<Rightarrow> ctx \<Rightarrow> stmt list \<Rightarrow> runtime \<Rightarrow> outcome" where
  "exec_stmts self w c [] s = (Ok Undefined, s)"
| "exec_stmts self w c (x # xs) s =
     (case exec_stmt self w c x s of
        (Ok u, s1) \<Rightarrow> exec_stmts self w c xs s1
      | other \<Rightarrow> other)"

subsection \<open>The methods, over \<open>self\<close>\<close>

definition requireModule_body ::
  "self \<Rightarrow> world \<Rightarrow> string \<Rightarrow> string option \<Rightarrow> bool \<Rightarrow> bool \<Rightarrow> runtime \<Rightarrow> outcome" where
  "requireModule_body self w from moduleName isInternalModule isRequireActual s =
     (if is_core_request w moduleName
      then (requireCoreModule w (case moduleName of Some name \<Rightarrow> name | None \<Rightarrow> []), s)
      else
        case requireModule_path w from moduleName isInternalModule isRequireActual s of
          Inl e \<Rightarrow> (Err e, s)
        | Inr modulePath \<Rightarrow>
            let moduleRegistry = select_registry s modulePath isInternalModule in
            if registry_get s moduleRegistry modulePath = None then
              (let (localModule, s1) = new_module modulePath s;
                   s2 = registry_set moduleRegistry modulePath localModule s1
               in
               if extname modulePath = ''.json'' then
                 (case global (env w) of
                    None \<Rightarrow> (Err (TypeError ''Cannot read property JSON of null''), s2)
                  | Some g \<Rightarrow>
                      (case readJSON w modulePath of
                         Inl e \<Rightarrow> (Err e, s2)
                       | Inr v \<Rightarrow>
                           (let s3 = set_loaded localModule (set_exports localModule v s2)
                            in (registry_exports s3 moduleRegistry modulePath, s3))))
               else if extname modulePath = ''.node'' then
                 (case nativeRequire w modulePath of
                    Inl e \<Rightarrow> (Err e, s2)
                  | Inr v \<Rightarrow>
                      (let s3 = set_loaded localModule (set_exports localModule v s2)
                       in (registry_exports s3 moduleRegistry modulePath, s3)))
               else
                 (case self (Call_ExecModule localModule isInternalModule) s2 of
                    (Ok u, s3) \<Rightarrow>
                      (let s4 = set_loaded localModule s3
                       in (registry_exports s4 moduleRegistry modulePath, s4))
                  | other \<Rightarrow> other))
            else (registry_exports s moduleRegistry modulePath, s))"

definition requireMock_body :: "self \<Rightarrow> world \<Rightarrow> string \<Rightarrow> string \<Rightarrow> runtime \<Rightarrow> outcome" where
  "requireMock_body self w from moduleName s =
     (let moduleID = getModuleID (resolver w) (virtualMocks s) from (Some moduleName);
          isolated = (case isolatedMockRegistry s of
                        None \<Rightarrow> None
                      | Some i \<Rightarrow> mock_get s i moduleID);
          main = mock_get s (mockRegistry s) moduleID
      in
      if (case isolated of Some v \<Rightarrow> val_truthy v | None \<Rightarrow> False)
      then (Ok (case isolated of Some v \<Rightarrow> v | None \<Rightarrow> Undefined), s)
      else if (case main of Some v \<Rightarrow> val_truthy v | None \<Rightarrow> False)
      then (Ok (case main of Some v \<Rightarrow> v | None \<Rightarrow> Undefined), s)
      else
        let mockRegistry = (case isolatedMockRegistry s of Some i \<Rightarrow> i | None \<Rightarrow> mockRegistry s) in
        case mockFactories s moduleID of
          Some (c, e) \<Rightarrow>
            (case eval_expr self c e s of
               (Ok v, s1) \<Rightarrow> (Ok v, mock_set mockRegistry moduleID v s1)
             | other \<Rightarrow> other)
        | None \<Rightarrow>
            let manualMockOrStub = getMockModule (resolver w) from moduleName in
            case runtime_resolveModule w from
                   (if truthy manualMockOrStub then manualMockOrStub else Some moduleName) of
              Inl e \<Rightarrow> (Err e, s)
            | Inr resolved \<Rightarrow>
                let isManualMock0 = (truthy manualMockOrStub
                                     \<and> \<not> truthy (resolveStubModuleName (resolver w) from moduleName));
                    potentialManualMock =
                      path_join3 (dirname resolved) ''__mocks__'' (basename resolved);
                    promoted = (\<not> isManualMock0 \<and> existsSync w potentialManualMock);
                    isManualMock = (isManualMock0 \<or> promoted);
                    modulePath = (if promoted then potentialManualMock else resolved)
                in
                if isManualMock then
                  (let (localModule, s1) = new_module modulePath s in
                   case self (Call_ExecModule localModule False) s1 of
                     (Ok u, s2) \<Rightarrow>
                       (case modules s2 localModule of
                          None \<Rightarrow> (Err (TypeError ''module object missing''), s2)
                        | Some m \<Rightarrow>
                            (let s3 = set_loaded localModule
                                        (mock_set mockRegistry moduleID (exports m) s2)
                             in (Ok (exports m), s3)))
                   | other \<Rightarrow> other)
                else
                  (case self (Call_GenerateMock from moduleName) s of
                     (Ok v, s1) \<Rightarrow> (Ok v, mock_set mockRegistry moduleID v s1)
                   | other \<Rightarrow> other))"

definition requireModuleOrMock_body ::
  "self \<Rightarrow> world \<Rightarrow> string \<Rightarrow> string \<Rightarrow> runtime \<Rightarrow> outcome" where
  "requireModuleOrMock_body self w from moduleName s =
     rethrow w from moduleName
       (case shouldMock w from moduleName s of
          (Ok b, s1) \<Rightarrow>
            if b then self (Call_RequireMock from moduleName) s1
            else self (Call_RequireModule from (Some moduleName) False False) s1
        | (Err e, s1) \<Rightarrow> (Err e, s1)
        | (OutOfFuel, s1) \<Rightarrow> (OutOfFuel, s1))"

definition isolateModules_body :: "self \<Rightarrow> world \<Rightarrow> ctx \<Rightarrow> stmt list \<Rightarrow> runtime \<Rightarrow> outcome" where
  "isolateModules_body self w c fn s =
     (if isolatedModuleRegistry s \<noteq> None \<or> isolatedMockRegistry s \<noteq> None
      then (Err (JsError ''isolateModules cannot be nested inside another isolateModules.''), s)
      else
        let (r, s1) = new_module_registry s;
            s2 = s1\<lparr>isolatedModuleRegistry := Some r\<rparr>;
            (mr, s3) = new_mock_registry s2;
            s4 = s3\<lparr>isolatedMockRegistry := Some mr\<rparr>
        in case exec_stmts self w c fn s4 of
             (Ok u, s5) \<Rightarrow>
               (Ok Undefined, s5\<lparr>isolatedModuleRegistry := None, isolatedMockRegistry := None\<rparr>)
           | other \<Rightarrow> other)"

definition generateMock_body :: "self \<Rightarrow> world \<Rightarrow> string \<Rightarrow> string \<Rightarrow> runtime \<Rightarrow> outcome" where
  "generateMock_body self w from moduleName s =
     (case (case resolveStubModuleName (resolver w) from moduleName of
              Some p \<Rightarrow> if p \<noteq> [] then Inr p else runtime_resolveModule w from (Some moduleName)
            | None \<Rightarrow> runtime_resolveModule w from (Some moduleName)) of
        Inl e \<Rightarrow> (Err e, s)
      | Inr modulePath \<Rightarrow>
          if mockMetaDataCache s modulePath = None then
            (let (ob, s1) = new_object s;
                 s2 = s1\<lparr>mockMetaDataCache :=
                          (mockMetaDataCache s1)(modulePath \<mapsto> getMetadata w (objects s1) (Ref ob))\<rparr>;
                 origMockRegistry = mockRegistry s2;
                 origModuleRegistry = moduleRegistry s2;
                 (mr, s3) = new_mock_registry s2;
                 s4 = s3\<lparr>mockRegistry := mr\<rparr>;
                 (r, s5) = new_module_registry s4;
                 s6 = s5\<lparr>moduleRegistry := r\<rparr>
             in case self (Call_RequireModule from (Some moduleName) False False) s6 of
                  (Ok moduleExports, s7) \<Rightarrow>
                    (let s8 = s7\<lparr>mockRegistry := origMockRegistry,
                                 moduleRegistry := origModuleRegistry\<rparr>
                     in case getMetadata w (objects s8) moduleExports of
                          None \<Rightarrow> (Err (JsError (''Failed to get mock metadata: '' @ modulePath)), s8)
                        | Some mockMetadata \<Rightarrow>
                            (Ok (generateFromMetadata w (Some mockMetadata)),
                             s8\<lparr>mockMetaDataCache :=
                                  (mockMetaDataCache s8)(modulePath \<mapsto> Some mockMetadata)\<rparr>))
                | other \<Rightarrow> other)
          else
            (Ok (generateFromMetadata w
                   (case mockMetaDataCache s modulePath of Some md \<Rightarrow> md | None \<Rightarrow> None)), s))"

definition execModule_body :: "self \<Rightarrow> world \<Rightarrow> nat \<Rightarrow> bool \<Rightarrow> runtime \<Rightarrow> outcome" where
  "execModule_body self w localModule isInternalModule s =
     (case global (env w) of
        None \<Rightarrow> (Ok Undefined, s)
      | Some g \<Rightarrow>
          (case modules s localModule of
             None \<Rightarrow> (Err (TypeError ''module object missing''), s)
           | Some m \<Rightarrow>
               let lastExecutingModulePath = currentlyExecutingModulePath s;
                   origCurrExecutingManualMock = isCurrentlyExecutingManualMock s;
                   s1 = s\<lparr>currentlyExecutingModulePath := filename m,
                          isCurrentlyExecutingManualMock := Some (filename m)\<rparr>
               in
               case transform w (filename m) of
                 Inl e \<Rightarrow> (Err e, s1)
               | Inr transformedFile \<Rightarrow>
                   let s2 = register_source_map (filename m) transformedFile s1 in
                   case runScript (env w) (script transformedFile) of
                     None \<Rightarrow>
                       (Ok Undefined,
                        (logFormattedReferenceError torn_down_message s2)\<lparr>exitCode := 1\<rparr>)
                   | Some wrapper \<Rightarrow>
                       (case missing_global g (extraGlobals w) of
                          Some globalVariable \<Rightarrow>
                            (Err (JsError (''You have requested '' @ globalVariable
                                           @ '' as a global variable, but it was not present.'')), s2)
                        | None \<Rightarrow>
                            (case exec_stmts self w
                                    \<lparr>ctx_from = filename m, ctx_module = localModule,
                                     ctx_exports = exports m, ctx_internal = isInternalModule\<rparr>
                                    wrapper (s2\<lparr>executed := executed s2 @ [filename m]\<rparr>) of
                               (Ok u, s3) \<Rightarrow>
                                 (Ok Undefined,
                                  s3\<lparr>isCurrentlyExecutingManualMock := origCurrExecutingManualMock,
                                     currentlyExecutingModulePath := lastExecutingModulePath\<rparr>)
                             | other \<Rightarrow> other))))"

subsection \<open>Tying the knot\<close>

fun dispatch :: "self \<Rightarrow> world \<Rightarrow> call \<Rightarrow> runtime \<Rightarrow> outcome" where
  "dispatch self w (Call_RequireModule from moduleName isInternalModule isRequireActual) s =
     requireModule_body self w from moduleName isInternalModule isRequireActual s"
| "dispatch self w (Call_RequireMock from moduleName) s = requireMock_body self w from moduleName s"
| "dispatch self w (Call_RequireModuleOrMock from moduleName) s =
     requireModuleOrMock_body self w from moduleName s"
| "dispatch self w (Call_IsolateModules c fn) s = isolateModules_body self w c fn s"
| "dispatch self w (Call_GenerateMock from moduleName) s = generateMock_body self w from moduleName s"
| "dispatch self w (Call_ExecModule localModule isInternalModule) s =
     execModule_body self w localModule isInternalModule s"

primrec run :: "nat \<Rightarrow> world \<Rightarrow> call \<Rightarrow> runtime \<Rightarrow> outcome" where
  "run 0 w c s = (OutOfFuel, s)"
| "run (Suc n) w c s = dispatch (run n w) w c s"

definition requireModule ::
  "nat \<Rightarrow> world \<Rightarrow> string \<Rightarrow> string option \<Rightarrow> bool \<Rightarrow> bool \<Rightarrow> runtime \<Rightarrow> outcome" where
  "requireModule n w from moduleName isInternalModule isRequireActual =
     run n w (Call_RequireModule from moduleName isInternalModule isRequireActual)"

definition requireMock :: "nat \<Rightarrow> world \<Rightarrow> string \<Rightarrow> string \<Rightarrow> runtime \<Rightarrow> outcome" where
  "requireMock n w from moduleName = run n w (Call_RequireMock from moduleName)"

definition requireModuleOrMock :: "nat \<Rightarrow> world \<Rightarrow> string \<Rightarrow> string \<Rightarrow> runtime \<Rightarrow> outcome" where
  "requireModuleOrMock n w from moduleName = run n w (Call_RequireModuleOrMock from moduleName)"

definition isolateModules :: "nat \<Rightarrow> world \<Rightarrow> ctx \<Rightarrow> stmt list \<Rightarrow> runtime \<Rightarrow> outcome" where
  "isolateModules n w c fn = run n w (Call_IsolateModules c fn)"

definition generateMock :: "nat \<Rightarrow> world \<Rightarrow> string \<Rightarrow> string \<Rightarrow> runtime \<Rightarrow> outcome" where
  "generateMock n w from moduleName = run n w (Call_GenerateMock from moduleName)"

definition execModule :: "nat \<Rightarrow> world \<Rightarrow> nat \<Rightarrow> bool \<Rightarrow> runtime \<Rightarrow> outcome" where
  "execModule n w localModule isInternalModule = run n w (Call_ExecModule localModule isInternalModule)"

section \<open>The claimed and the actual order of the mock policy\<close>

text \<open>
  A decision table: the first rule whose guard holds gives the outcome, the default
  applies when none does.
\<close>

fun first_match :: "(bool \<times> 'a) list \<Rightarrow> 'a \<Rightarrow> 'a" where
  "first_match [] d = d"
| "first_match ((g, x) # rs) d = (if g then x else first_match rs d)"

definition memoize :: "string \<Rightarrow> bool \<Rightarrow> runtime \<Rightarrow> runtime" where
  "memoize moduleID b s = s\<lparr>shouldMockModuleCache := (shouldMockModuleCache s)(moduleID \<mapsto> b)\<rparr>"

definition record_transitive_unmock :: "string \<Rightarrow> string \<Rightarrow> runtime \<Rightarrow> runtime" where
  "record_transitive_unmock moduleID key s =
     s\<lparr>transitiveShouldMock := (transitiveShouldMock s)(moduleID \<mapsto> False),
       shouldUnmockTransitiveDependenciesCache :=
         (shouldUnmockTransitiveDependenciesCache s)(key \<mapsto> True)\<rparr>"

definition resolution_failed :: "world \<Rightarrow> string \<Rightarrow> string \<Rightarrow> string \<Rightarrow> error \<Rightarrow> runtime \<Rightarrow> bool result \<times> runtime" where
  "resolution_failed w from moduleName moduleID e s =
     (if truthy (getMockModule (resolver w) from moduleName)
      then (Ok True, memoize moduleID True s) else (Err e, s))"

definition vendored_unmock :: "world \<Rightarrow> string \<Rightarrow> string \<Rightarrow> runtime \<Rightarrow> bool" where
  "vendored_unmock w from modulePath s =
     (str_includes from NODE_MODULES \<and> str_includes modulePath NODE_MODULES
      \<and> (unmockList_test (unmockList w) from
           \<or> explicitShouldMock s (getModuleID (resolver w) (virtualMocks s) from None) = Some False))"

text \<open>The decision procedure as the specification words it: virtual mock, explicit
  override, core module, transitive-unmock cache, auto-mock disabled, memoized value, then
  on the resolved path the vendored-unmock rule, then the unmock list, then the default.\<close>

definition shouldMock_claimed :: "world \<Rightarrow> string \<Rightarrow> string \<Rightarrow> runtime \<Rightarrow> bool result \<times> runtime" where
  "shouldMock_claimed w from moduleName s =
    (let moduleID = getModuleID (resolver w) (virtualMocks s) from (Some moduleName);
         key = from @ path_delimiter @ moduleID
     in first_match
       [(virtualMocks s (getModulePath (resolver w) from moduleName) \<noteq> None, (Ok True, s)),
        (explicitShouldMock s moduleID \<noteq> None, (Ok (explicitShouldMock s moduleID = Some True), s)),
        (isCoreModule (resolver w) moduleName, (Ok False, s)),
        (shouldUnmockTransitiveDependenciesCache s key = Some True, (Ok False, s)),
        (\<not> shouldAutoMock s, (Ok False, s)),
        (shouldMockModuleCache s moduleID \<noteq> None, (Ok (shouldMockModuleCache s moduleID = Some True), s))]
       (case runtime_resolveModule w from (Some moduleName) of
          Inl e \<Rightarrow> resolution_failed w from moduleName moduleID e s
        | Inr modulePath \<Rightarrow>
            first_match
              [(vendored_unmock w from modulePath s, (Ok False, record_transitive_unmock moduleID key s)),
               (unmockList_test (unmockList w) modulePath, (Ok False, memoize moduleID False s))]
              (Ok True, memoize moduleID True s)))"

text \<open>The same table with the two rules on the resolved path as the code has them: the
  unmock list first, then the vendored-unmock rule, which also fires when the requiring
  module itself is marked as transitively unmocked.\<close>

definition shouldMock_rules :: "world \<Rightarrow> string \<Rightarrow> string \<Rightarrow> runtime \<Rightarrow> bool result \<times> runtime" where
  "shouldMock_rules w from moduleName s =
    (let moduleID = getModuleID (resolver w) (virtualMocks s) from (Some moduleName);
         key = from @ path_delimiter @ moduleID
     in first_match
       [(virtualMocks s (getModulePath (resolver w) from moduleName) \<noteq> None, (Ok True, s)),
        (explicitShouldMock s moduleID \<noteq> None, (Ok (explicitShouldMock s moduleID = Some True), s)),
        (isCoreModule (resolver w) moduleName, (Ok False, s)),
        (shouldUnmockTransitiveDependenciesCache s key = Some True, (Ok False, s)),
        (\<not> shouldAutoMock s, (Ok False, s)),
        (shouldMockModuleCache s moduleID \<noteq> None, (Ok (shouldMockModuleCache s moduleID = Some True), s))]
       (case runtime_resolveModule w from (Some moduleName) of
          Inl e \<Rightarrow> resolution_failed w from moduleName moduleID e s
        | Inr modulePath \<Rightarrow>
            first_match
              [(unmockList_test (unmockList w) modulePath, (Ok False, memoize moduleID False s)),
               (transitiveShouldMock s (getModuleID (resolver w) (virtualMocks s) from None) = Some False
                  \<or> vendored_unmock w from modulePath s,
                (Ok False, record_transitive_unmock moduleID key s))]
              (Ok True, memoize moduleID True s)))"


section \<open>\<^verbatim>\<open>require.resolve.paths\<close>\<close>

text \<open>\<^verbatim>\<open>_requireResolvePaths(from, moduleName)\<close>; the result is a list of paths or
  \<^verbatim>\<open>null\<close>.\<close>

definition requireResolvePaths ::
  "world \<Rightarrow> string \<Rightarrow> string option \<Rightarrow> string list option result" where
  "requireResolvePaths w from moduleName =
     (case moduleName of
        None \<Rightarrow>
          Err (JsError ''The first argument to require.resolve.paths must be a string. Received null or undefined.'')
      | Some name \<Rightarrow>
          if length name = 0
          then Err (JsError ''The first argument to require.resolve.paths must not be the empty string.'')
          else if hd name = CHR ''.'' then Ok (Some [path_resolve_parent (cwd w) from])
          else if isCoreModule (resolver w) name then Ok None
          else Ok (Some (getModulePaths (resolver w) (path_resolve_parent (cwd w) from))))"

text \<open>An absolute path in normal form: a slash, then one or more components separated by
  single slashes, none of them empty, \<^verbatim>\<open>.\<close> or \<^verbatim>\<open>..\<close>.\<close>

definition clean_segment :: "string \<Rightarrow> bool" where
  "clean_segment x = (x \<noteq> [] \<and> x \<noteq> ''.'' \<and> x \<noteq> ''..'' \<and> CHR ''/'' \<notin> set x)"

definition module_file_path :: "string list \<Rightarrow> string" where
  "module_file_path segs = CHR ''/'' # join_segs segs"

section \<open>A small world for concrete runs\<close>

text \<open>
  A resolver given by a table from requests to paths and a table of manual mocks; the
  module id of a request is the path it resolves to. The file system maps paths to bodies.
\<close>

definition table_resolver :: "(string \<times> string) list \<Rightarrow> (string \<times> string) list \<Rightarrow> resolver" where
  "table_resolver tbl mocks =
     \<lparr>getModulePath = (\<lambda>from name. case map_of tbl name of Some p \<Rightarrow> p | None \<Rightarrow> name),
      getModuleID = (\<lambda>vm from name.
         case name of None \<Rightarrow> from
         | Some n \<Rightarrow> (case map_of tbl n of Some p \<Rightarrow> p | None \<Rightarrow> n)),
      isCoreModule = (\<lambda>name. name = ''fs'' \<or> name = ''process''),
      resolveModule = (\<lambda>from name.
         case map_of tbl name of Some p \<Rightarrow> Inr p | None \<Rightarrow> Inl (ModuleNotFound name)),
      getMockModule = (\<lambda>from name. map_of mocks name),
      getModule = (\<lambda>name. None),
      getModulePaths = (\<lambda>dir. [dir @ ''/node_modules'']),
      resolveStubModuleName = (\<lambda>from name. None)\<rparr>"

definition live_env :: environment where
  "live_env = \<lparr>global = Some (\<lambda>name. True), runScript = Some\<rparr>"

definition table_world ::
  "(string \<times> string) list \<Rightarrow> (string \<times> string) list \<Rightarrow> (string \<times> stmt list) list \<Rightarrow> world" where
  "table_world tbl mocks files =
     \<lparr>resolver = table_resolver tbl mocks,
      env = live_env,
      transform = (\<lambda>p. case map_of files p of
                          Some body \<Rightarrow> Inr \<lparr>script = body, sourceMapPath = None, mapCoverage = False\<rparr>
                        | None \<Rightarrow> Inl (TransformError p)),
      extraGlobals = [],
      unmockList = None,
      existsSync = (\<lambda>p. False),
      readJSON = (\<lambda>p. Inl (JsError p)),
      nativeRequire = (\<lambda>p. Inl (JsError p)),
      getMetadata = (\<lambda>heap v. Some ''metadata''),
      generateFromMetadata = (\<lambda>md. Generated (case md of Some x \<Rightarrow> x | None \<Rightarrow> [])),
      findSiblingsWithFileExtension = (\<lambda>from name. []),
      cwd = ''/''\<rparr>"

text \<open>The runtime as its constructor leaves it when there are no setup files: the three
  registries of the constructor, then \<^verbatim>\<open>resetModules\<close>.\<close>

definition constructed :: "bool \<Rightarrow> runtime" where
  "constructed automock =
     resetModules
       \<lparr>next_addr = 3, modules = Map.empty, objects = Map.empty,
        module_registries = [0 \<mapsto> Map.empty, 2 \<mapsto> Map.empty],
        mock_registries = [1 \<mapsto> Map.empty],
        currentlyExecutingModulePath = [],
        explicitShouldMock = Map.empty,
        internalModuleRegistry = 0,
        isCurrentlyExecutingManualMock = None,
        mockFactories = Map.empty,
        mockMetaDataCache = Map.empty,
        mockRegistry = 1,
        isolatedMockRegistry = None,
        isolatedModuleRegistry = None,
        moduleRegistry = 2,
        needsCoverageMapped = {},
        shouldAutoMock = automock,
        shouldMockModuleCache = Map.empty,
        shouldUnmockTransitiveDependenciesCache = Map.empty,
        sourceMapRegistry = Map.empty,
        transitiveShouldMock = Map.empty,
        virtualMocks = Map.empty,
        exitCode = 0,
        console_error = [],
        executed = []\<rparr>"

text \<open>Two modules that require each other at top level:
  \<^verbatim>\<open>a.js = exports.a = 1; exports.b = require('./b');\<close> and
  \<^verbatim>\<open>b.js = exports.pre = require('./a').a; exports.post = require('./a').b;\<close>.\<close>

definition cycle_world :: world where
  "cycle_world = table_world [(''./a'', ''/a.js''), (''./b'', ''/b.js'')] []
     [(''/a.js'', [ExportsSet ''a'' (Lit (Num 1)), ExportsSet ''b'' (Require ''./b'')]),
      (''/b.js'', [ExportsSet ''pre'' (Prop (Require ''./a'') ''a''),
                   ExportsSet ''post'' (Prop (Require ''./a'') ''b'')])]"

text \<open>Environments after teardown: one that has disposed of its global object (and runs
  no script), one that keeps the global object and only runs no script any more.\<close>

definition disposed_env :: environment where
  "disposed_env = \<lparr>global = None, runScript = (\<lambda>script. None)\<rparr>"

definition contextless_env :: environment where
  "contextless_env = \<lparr>global = Some (\<lambda>name. True), runScript = (\<lambda>script. None)\<rparr>"




section \<open>Relating the runtime before and after a call\<close>









text \<open>The list of executed files only grows.\<close>

definition extends :: "'a list \<Rightarrow> 'a list \<Rightarrow> bool" where
  "extends xs ys = (take (length xs) ys = xs)"


section \<open>The mock policy\<close>

lemmas table_world_defs =
  table_world_def table_resolver_def live_env_def constructed_def resetModules_def
  new_mock_registry_def new_module_registry_def runtime_resolveModule_def
  path_delimiter_def NODE_MODULES_def Let_def

lemmas shouldMock_table_defs =
  resolution_failed_def memoize_def record_transitive_unmock_def vendored_unmock_def

text \<open>
  C1, as the code has it. \<open>shouldMock\<close> decides by the first matching rule of: virtual
  mock, true; explicit override, its recorded value; core module, false; transitive-unmock
  cache, false; auto-mock disabled, false; memoized value, that value; then, on the resolved
  path, unmock list matching it, memoize false and return false; the requiring module marked
  transitively unmocked or the vendored-unmock rule, record the module as transitively
  unmocked and return false; otherwise memoize true and return true.
\<close>

theorem shouldMock_decision_table:
  "shouldMock w from moduleName s = shouldMock_rules w from moduleName s"
  by (auto simp: shouldMock_def shouldMock_rules_def Let_def shouldMock_table_defs
      split: option.splits sum.splits)

theorem shouldMock_decision_table_witness:
  "shouldMock (table_world [(''dep'', ''/app/dep.js'')] [] []) ''/app/test.js'' ''dep''
     (constructed True)
   = (Ok True, (constructed True)\<lparr>shouldMockModuleCache := [''/app/dep.js'' \<mapsto> True]\<rparr>)"
  using shouldMock_decision_table
    [of "table_world [(''dep'', ''/app/dep.js'')] [] []" "''/app/test.js''" "''dep''"
        "constructed True"]
  by (simp add: shouldMock_rules_def shouldMock_table_defs table_world_defs)

text \<open>
  The order the specification gives fails twice. A requiring module outside
  \<^verbatim>\<open>node_modules\<close> that is marked transitively unmocked (by \<^verbatim>\<open>deepUnmock\<close>) makes the
  code answer false where the claimed table answers true. And when both the unmock list and
  the vendored-unmock rule match, the code memoizes false and records nothing as
  transitively unmocked, where the claimed table records the module.
\<close>

theorem shouldMock_claimed_counterexample:
  "fst (shouldMock (table_world [(''dep'', ''/app/dep.js'')] [] []) ''/app/test.js'' ''dep''
         ((constructed True)\<lparr>transitiveShouldMock := [''/app/test.js'' \<mapsto> False]\<rparr>)) = Ok False
   \<and> fst (shouldMock_claimed (table_world [(''dep'', ''/app/dep.js'')] [] []) ''/app/test.js'' ''dep''
         ((constructed True)\<lparr>transitiveShouldMock := [''/app/test.js'' \<mapsto> False]\<rparr>)) = Ok True
   \<and> transitiveShouldMock (snd (shouldMock
         ((table_world [(''b'', ''/node_modules/b/index.js'')] [] [])
            \<lparr>unmockList := Some (\<lambda>p. str_includes p ''/node_modules/'')\<rparr>)
         ''/node_modules/a/index.js'' ''b'' (constructed True))) ''/node_modules/b/index.js'' = None
   \<and> transitiveShouldMock (snd (shouldMock_claimed
         ((table_world [(''b'', ''/node_modules/b/index.js'')] [] [])
            \<lparr>unmockList := Some (\<lambda>p. str_includes p ''/node_modules/'')\<rparr>)
         ''/node_modules/a/index.js'' ''b'' (constructed True))) ''/node_modules/b/index.js''
       = Some False"
  by (simp add: shouldMock_def shouldMock_claimed_def shouldMock_table_defs table_world_defs)

text \<open>
  C10. When the decision reaches the resolution of \<open>(from, moduleName)\<close> and the
  resolution throws: if the resolver reports a manual mock for the request, true is memoized
  for the module id and returned; otherwise the error of the resolution is thrown on and the
  runtime is unchanged.
\<close>

theorem shouldMock_resolution_error:
  assumes "virtualMocks s (getModulePath (resolver w) from moduleName) = None"
    and "moduleID = getModuleID (resolver w) (virtualMocks s) from (Some moduleName)"
    and "explicitShouldMock s moduleID = None"
    and "shouldAutoMock s"
    and "\<not> isCoreModule (resolver w) moduleName"
    and "shouldUnmockTransitiveDependenciesCache s (from @ path_delimiter @ moduleID) \<noteq> Some True"
    and "shouldMockModuleCache s moduleID = None"
    and "runtime_resolveModule w from (Some moduleName) = Inl e"
  shows "shouldMock w from moduleName s =
           (if truthy (getMockModule (resolver w) from moduleName)
            then (Ok True, s\<lparr>shouldMockModuleCache := (shouldMockModuleCache s)(moduleID \<mapsto> True)\<rparr>)
            else (Err e, s))"
  using assms by (simp add: shouldMock_def Let_def)

theorem shouldMock_resolution_error_witness:
  "fst (shouldMock (table_world [] [(''gone'', ''/app/__mocks__/gone.js'')] []) ''/app/test.js''
          ''gone'' (constructed True)) = Ok True
   \<and> shouldMockModuleCache
         (snd (shouldMock (table_world [] [(''gone'', ''/app/__mocks__/gone.js'')] [])
                 ''/app/test.js'' ''gone'' (constructed True))) ''gone'' = Some True
   \<and> shouldMock (table_world [] [] []) ''/app/test.js'' ''gone'' (constructed True)
     = (Err (ModuleNotFound ''gone''), constructed True)"
proof -
  let ?w = "table_world [] [(''gone'', ''/app/__mocks__/gone.js'')] []"
  let ?v = "table_world [] [] []"
  let ?s = "constructed True"
  have mock: "truthy (getMockModule (resolver ?w) ''/app/test.js'' ''gone'')"
    and nomock: "\<not> truthy (getMockModule (resolver ?v) ''/app/test.js'' ''gone'')"
    by (simp_all add: table_world_defs)
  have a: "shouldMock ?w ''/app/test.js'' ''gone'' ?s =
            (Ok True, ?s\<lparr>shouldMockModuleCache := (shouldMockModuleCache ?s)(''gone'' \<mapsto> True)\<rparr>)"
    using mock
    by (subst shouldMock_resolution_error
          [where moduleID = "''gone''" and e = "ModuleNotFound ''gone''"])
       (simp_all add: table_world_defs)
  have b: "shouldMock ?v ''/app/test.js'' ''gone'' ?s = (Err (ModuleNotFound ''gone''), ?s)"
    using nomock
    by (subst shouldMock_resolution_error
          [where moduleID = "''gone''" and e = "ModuleNotFound ''gone''"])
       (simp_all add: table_world_defs)
  show ?thesis by (simp add: a b)
qed



section \<open>Every call preserves a preserved relation\<close>














lemma new_module_pair: "new_module p s = (fst (new_module p s), snd (new_module p s))"
  by simp











subsection \<open>Registries and module objects only grow\<close>













section \<open>Requiring modules\<close>

lemmas run_defs =
  requireModule_def requireMock_def requireModuleOrMock_def isolateModules_def
  generateMock_def execModule_def

lemmas body_defs =
  requireModule_body_def requireMock_body_def requireModuleOrMock_body_def
  isolateModules_body_def generateMock_body_def execModule_body_def

lemmas store_defs =
  new_object_def new_module_def new_module_registry_def new_mock_registry_def
  registry_get_def registry_set_def mock_get_def mock_set_def set_exports_def set_loaded_def
  registry_exports_def get_prop_def set_prop_def

lemmas helper_defs =
  is_core_request_def requireModule_path_def manualMockFor_def select_registry_def
  requireCoreModule_def missing_global_def register_source_map_def
  logFormattedReferenceError_def extname_def basename_def







lemma requireModule_Suc:
  "requireModule (Suc n) w from moduleName isInternalModule isRequireActual s =
     requireModule_body (run n w) w from moduleName isInternalModule isRequireActual s"
  by (simp add: requireModule_def)

lemma run_ExecModule: "run n w (Call_ExecModule a i) = execModule n w a i"
  by (simp add: execModule_def)









lemma requireModule_loads:
  assumes "\<not> is_core_request w moduleName"
    and "requireModule_path w from moduleName isInternalModule isRequireActual s = Inr p"
    and "registry_get s (select_registry s p isInternalModule) p = None"
    and "extname p \<noteq> ''.json''" and "extname p \<noteq> ''.node''"
  shows "requireModule (Suc n) w from moduleName isInternalModule isRequireActual s =
           (case execModule n w (Suc (next_addr s)) isInternalModule
                   (registry_set (select_registry s p isInternalModule) p (Suc (next_addr s))
                      (snd (new_module p s))) of
              (Ok u, s3) \<Rightarrow>
                (registry_exports (set_loaded (Suc (next_addr s)) s3)
                   (select_registry s p isInternalModule) p,
                 set_loaded (Suc (next_addr s)) s3)
            | other \<Rightarrow> other)"
  using assms
  by (auto simp: requireModule_Suc requireModule_body_def Let_def new_module_def new_object_def
      run_ExecModule split: prod.splits result.splits)



text \<open>
  C2, as the code has it. Loading a module after teardown does not throw and runs no body.
  When the global object of the environment is absent, nothing is logged and the exit code
  is untouched; when the global object is there, the file transforms and \<open>runScript\<close>
  returns null, the reference error is logged and the exit code is set to 1. In both cases
  the require returns the module's pre-allocated, still empty exports object.
\<close>

theorem requireModule_torn_down:
  assumes nc: "\<not> is_core_request w moduleName"
    and path: "requireModule_path w from moduleName isInternalModule isRequireActual s = Inr p"
    and miss: "registry_get s (select_registry s p isInternalModule) p = None"
    and ext: "extname p \<noteq> ''.json''" "extname p \<noteq> ''.node''"
    and torn: "global (env w) = None
               \<or> (\<exists>t. transform w p = Inr t \<and> runScript (env w) (script t) = None)"
  shows "\<exists>s'. requireModule (Suc (Suc n)) w from moduleName isInternalModule isRequireActual s
                 = (Ok (Ref (next_addr s)), s')
          \<and> objects s' (next_addr s) = Some Map.empty
          \<and> executed s' = executed s
          \<and> (if global (env w) = None
              then console_error s' = console_error s \<and> exitCode s' = exitCode s
              else console_error s' = console_error s @ [torn_down_message] \<and> exitCode s' = 1)"
proof (cases "global (env w)")
  case None
  then show ?thesis
    using requireModule_loads[OF nc path miss ext, of "Suc n"]
    by (simp add: execModule_def execModule_body_def registry_exports_def registry_get_def
        registry_set_def set_loaded_def new_module_def new_object_def)
next
  case (Some g)
  with torn obtain t where "transform w p = Inr t" "runScript (env w) (script t) = None"
    by auto
  with Some show ?thesis
    using requireModule_loads[OF nc path miss ext, of "Suc n"]
    by (simp add: execModule_def execModule_body_def registry_exports_def registry_get_def
        registry_set_def set_loaded_def new_module_def new_object_def Let_def
        register_source_map_def logFormattedReferenceError_def)
qed

section \<open>Concrete runs\<close>

lemmas eval_defs =
  eval_nat_numeral run_defs body_defs store_defs helper_defs cycle_world_def table_world_defs
  shouldMock_def disposed_env_def contextless_env_def


text \<open>
  The cycle of the two modules above, required through \<^verbatim>\<open>a.js\<close>: the result is
  \<^verbatim>\<open>{a: 1, b: {pre: 1, post: undefined}}\<close>, and each body ran once.
\<close>

theorem cycle_scenario:
  "fst (requireModule 8 cycle_world ''/test.js'' (Some ''./a'') False False (constructed False))
     = Ok (Ref 5)
   \<and> objects (snd (requireModule 8 cycle_world ''/test.js'' (Some ''./a'') False False
                     (constructed False))) 5 = Some [''a'' \<mapsto> Num 1, ''b'' \<mapsto> Ref 7]
   \<and> objects (snd (requireModule 8 cycle_world ''/test.js'' (Some ''./a'') False False
                     (constructed False))) 7 = Some [''pre'' \<mapsto> Num 1, ''post'' \<mapsto> Undefined]
   \<and> executed (snd (requireModule 8 cycle_world ''/test.js'' (Some ''./a'') False False
                     (constructed False))) = [''/a.js'', ''/b.js'']"
  by (simp add: eval_defs)





theorem requireModule_torn_down_witness:
  "\<exists>s'. requireModule (Suc (Suc 0)) (cycle_world\<lparr>env := contextless_env\<rparr>) ''/test.js''
            (Some ''./a'') False False (constructed False) = (Ok (Ref 5), s')
        \<and> console_error s' = [torn_down_message] \<and> exitCode s' = 1"
proof -
  let ?s = "constructed False"
  let ?w = "cycle_world\<lparr>env := contextless_env\<rparr>"
  have nc: "\<not> is_core_request ?w (Some ''./a'')"
    by (simp add: eval_defs)
  have path: "requireModule_path ?w ''/test.js'' (Some ''./a'') False False ?s = Inr ''/a.js''"
    by (simp add: eval_defs)
  have miss: "registry_get ?s (select_registry ?s ''/a.js'' False) ''/a.js'' = None"
    by (simp add: eval_defs)
  have ext: "extname ''/a.js'' \<noteq> ''.json''" "extname ''/a.js'' \<noteq> ''.node''"
    by (simp_all add: eval_defs)
  have torn: "global (env ?w) = None
               \<or> (\<exists>t. transform ?w ''/a.js'' = Inr t \<and> runScript (env ?w) (script t) = None)"
    by (simp add: eval_defs)
  have g: "global (env ?w) \<noteq> None" by (simp add: eval_defs)
  have n: "next_addr ?s = 5" "console_error ?s = []" by (simp_all add: eval_defs)
  show ?thesis
    using requireModule_torn_down[OF nc path miss ext torn, of 0] g n by auto
qed

text \<open>
  Against C2 as stated: with the global object disposed of, the require returns the exports
  object (not \<^verbatim>\<open>undefined\<close>), nothing is logged and the exit code stays 0.
\<close>

theorem torn_down_claim_counterexample:
  "fst (requireModule 2 (cycle_world\<lparr>env := disposed_env\<rparr>) ''/test.js'' (Some ''./a'')
          False False (constructed False)) = Ok (Ref 5)
   \<and> console_error (snd (requireModule 2 (cycle_world\<lparr>env := disposed_env\<rparr>) ''/test.js''
          (Some ''./a'') False False (constructed False))) = []
   \<and> exitCode (snd (requireModule 2 (cycle_world\<lparr>env := disposed_env\<rparr>) ''/test.js''
          (Some ''./a'') False False (constructed False))) = 0"
  by (simp add: eval_defs)

end
